theory Spec2Isabelle
  imports Main "HOL-Library.Sublist"
begin

section \<open>Failure objects\<close>

text \<open>
  The pipeline of \<^verbatim>\<open>ai_pipeline.py\<close> inspects a failure object in four ways only:
  \<^verbatim>\<open>isinstance\<close> against the four classes \<^verbatim>\<open>InvokeAuthorizationError\<close>,
  \<^verbatim>\<open>InvokeError\<close>, \<^verbatim>\<open>ValueError\<close> and \<^verbatim>\<open>QuotaExceededError\<close>, the attribute
  \<^verbatim>\<open>description\<close> (read through \<^verbatim>\<open>getattr\<close>), and \<^verbatim>\<open>str(e)\<close>.
  A failure object is the record of these observations. Three of the four classes are
  declared outside this file, so which of them derive from which is not fixed here: the
  four answers of \<^verbatim>\<open>isinstance\<close> are independent fields.

  The attribute \<^verbatim>\<open>description\<close> is \<open>None\<close> when the object has no such attribute,
  \<open>Some None\<close> when the attribute holds Python's \<^verbatim>\<open>None\<close>, and \<open>Some (Some s)\<close> when
  it holds the string \<open>s\<close> (\<^verbatim>\<open>_error_to_desc\<close> is annotated to return \<^verbatim>\<open>str\<close>, and
  returns the attribute as it is).
\<close>

record pyexc =
  is_InvokeAuthorizationError :: bool
  is_InvokeError :: bool
  is_ValueError :: bool
  is_QuotaExceededError :: bool
  description :: "string option option"
  str_of :: string

text \<open>
  \<^verbatim>\<open>Exception(x)\<close> for a string \<open>x\<close>: an instance of the builtin class itself, which is
  none of the four classes, has no attribute \<^verbatim>\<open>description\<close>, and prints as \<open>x\<close>.
\<close>

definition Exception :: "string \<Rightarrow> pyexc" where
  "Exception x =
     \<lparr> is_InvokeAuthorizationError = False, is_InvokeError = False, is_ValueError = False,
       is_QuotaExceededError = False, description = None, str_of = x \<rparr>"

text \<open>Truthiness of an optional string: \<^verbatim>\<open>None\<close> and \<^verbatim>\<open>''\<close> are false.\<close>

fun truthy :: "string option \<Rightarrow> bool" where
  "truthy None = False"
| "truthy (Some s) = (s \<noteq> [])"

definition quota_message :: string where
  "quota_message =
     ''Your quota for Dify Hosted Model Provider has been exhausted. '' @
     ''Please go to Settings -> Model Provider to complete your own provider credentials.''"

definition support_message :: string where
  "support_message = ''Internal Server Error, please contact support.''"

text \<open>
  \<^verbatim>\<open>getattr(e, 'description', str(e))\<close>: the attribute when the object has it (also when
  it holds \<^verbatim>\<open>None\<close>), otherwise the string form.
\<close>

definition getattr_description_or_str :: "pyexc \<Rightarrow> string option" where
  "getattr_description_or_str e =
     (case description e of None \<Rightarrow> Some (str_of e) | Some v \<Rightarrow> v)"

definition error_to_desc :: "pyexc \<Rightarrow> string" where
  "error_to_desc e =
     (if is_QuotaExceededError e then quota_message
      else (case getattr_description_or_str e of
              None \<Rightarrow> support_message
            | Some message \<Rightarrow> if message = [] then support_message else message))"

section \<open>Events, message records and the persistence layer\<close>

record queue_error_event =
  error :: pyexc

text \<open>A \<^verbatim>\<open>Message\<close> row: its id, its status and its nullable error text.\<close>

record message =
  message_id :: string
  message_status :: string
  message_error :: "string option"

text \<open>
  The persistence layer (\<^verbatim>\<open>db.session\<close>) is an external collaborator with three
  operations used here: query by id, mutation of a fetched object, and commit. Its state
  is the committed table, the objects changed in the session and not yet committed, and
  the list of the calls made so far.
\<close>

datatype db_call = Query string | Mutation string | Commit

record database =
  committed :: "string \<rightharpoonup> message"
  pending :: "string \<rightharpoonup> message"
  calls :: "db_call list"

definition lookup_message :: "database \<Rightarrow> string \<Rightarrow> message option" where
  "lookup_message d i = (case pending d i of Some r \<Rightarrow> Some r | None \<Rightarrow> committed d i)"

text \<open>
  \<^verbatim>\<open>db.session.query(Message).filter(Message.id == i).first()\<close>: the row with this id,
  or \<^verbatim>\<open>None\<close> when there is none.
\<close>

definition query_first :: "string \<Rightarrow> database \<Rightarrow> message option \<times> database" where
  "query_first i d = (lookup_message d i, d\<lparr>calls := calls d @ [Query i]\<rparr>)"

text \<open>An attribute assignment on the object fetched under id \<open>i\<close>.\<close>

definition mutate :: "string \<Rightarrow> message \<Rightarrow> database \<Rightarrow> database" where
  "mutate i r d = d\<lparr>pending := (pending d)(i \<mapsto> r), calls := calls d @ [Mutation i]\<rparr>"

definition commit :: "database \<Rightarrow> database" where
  "commit d =
     d\<lparr>committed := committed d ++ pending d, pending := Map.empty, calls := calls d @ [Commit]\<rparr>"

section \<open>The error classifier\<close>

datatype py_error = AttributeError

datatype outcome = Returned pyexc | Raised py_error

text \<open>
  \<^verbatim>\<open>_handle_error\<close>. The class \<^verbatim>\<open>InvokeAuthorizationError\<close> is declared outside this
  file; its constructor is the parameter \<open>InvokeAuthorizationError\<close>.
  When the query finds no row, \<^verbatim>\<open>message\<close> is \<^verbatim>\<open>None\<close> and the assignment
  \<^verbatim>\<open>message.status = 'error'\<close> raises \<^verbatim>\<open>AttributeError\<close>.
\<close>

definition handle_error ::
  "(string \<Rightarrow> pyexc) \<Rightarrow> queue_error_event \<Rightarrow> message option \<Rightarrow> database
     \<Rightarrow> outcome \<times> database" where
  "handle_error InvokeAuthorizationError event message d =
     (let e = error event;
          err = (if is_InvokeAuthorizationError e
                 then InvokeAuthorizationError ''Incorrect API key provided''
                 else if is_InvokeError e \<or> is_ValueError e then e
                 else Exception (case description e of
                                   Some (Some s) \<Rightarrow> s
                                 | _ \<Rightarrow> str_of e))
      in (case message of
            None \<Rightarrow> (Returned err, d)
          | Some m \<Rightarrow>
              (case query_first (message_id m) d of
                 (None, d1) \<Rightarrow> (Raised AttributeError, d1)
               | (Some row, d1) \<Rightarrow>
                   (let err_desc = error_to_desc err;
                        row1 = row\<lparr>message_status := ''error''\<rparr>;
                        d2 = mutate (message_id m) row1 d1;
                        row2 = row1\<lparr>message_error := Some err_desc\<rparr>;
                        d3 = mutate (message_id m) row2 d2
                    in (Returned err, commit d3)))))"

section \<open>The pipeline object\<close>

type_synonym queue_manager = string
type_synonym user = string

record sensitive_word_avoidance_entity =
  swa_type :: string
  swa_config :: "(string \<times> string) list"

record app_config_entity =
  tenant_id :: string
  app_id :: string
  sensitive_word_avoidance :: "sensitive_word_avoidance_entity option"

record app_generate_entity =
  task_id :: string
  app_config :: app_config_entity

record moderation_rule =
  rule_type :: string
  rule_config :: "(string \<times> string) list"

text \<open>
  The moderation handler is an external collaborator. It is constructed from the tenant,
  the app, the rule and the queue manager, and runs background work until it is stopped.
\<close>

record output_moderation =
  om_tenant_id :: string
  om_app_id :: string
  om_rule :: moderation_rule
  om_queue_manager :: queue_manager
  thread_running :: bool

record pipeline =
  application_generate_entity :: app_generate_entity
  queue_manager :: queue_manager
  user :: user
  start_at :: nat
  output_moderation_handler :: "output_moderation option"
  stream :: bool

text \<open>
  \<^verbatim>\<open>_init_output_moderation\<close> reads the generate entity and the queue manager of the
  pipeline under construction. A function that ends without \<^verbatim>\<open>return\<close> gives
  \<^verbatim>\<open>None\<close>.
\<close>

definition init_output_moderation :: "pipeline \<Rightarrow> output_moderation option" where
  "init_output_moderation self =
     (let app_config = app_config (application_generate_entity self)
      in (case sensitive_word_avoidance app_config of
            Some swa \<Rightarrow>
              Some \<lparr> om_tenant_id = tenant_id app_config,
                     om_app_id = app_id app_config,
                     om_rule = \<lparr> rule_type = swa_type swa, rule_config = swa_config swa \<rparr>,
                     om_queue_manager = queue_manager self,
                     thread_running = True \<rparr>
          | None \<Rightarrow> None))"

text \<open>\<^verbatim>\<open>__init__\<close>; \<open>now\<close> is the reading of \<^verbatim>\<open>time.perf_counter()\<close>.\<close>

definition init ::
  "app_generate_entity \<Rightarrow> queue_manager \<Rightarrow> user \<Rightarrow> bool \<Rightarrow> nat \<Rightarrow> pipeline" where
  "init entity qm usr strm now =
     (let self = \<lparr> application_generate_entity = entity, queue_manager = qm, user = usr,
                   start_at = now, output_moderation_handler = None, stream = strm \<rparr>
      in self\<lparr>output_moderation_handler := init_output_moderation self\<rparr>)"

section \<open>Stream responses\<close>

record error_stream_response =
  esr_task_id :: string
  esr_err :: pyexc

record ping_stream_response =
  psr_task_id :: string

definition error_to_stream_response :: "pipeline \<Rightarrow> pyexc \<Rightarrow> error_stream_response" where
  "error_to_stream_response self e =
     \<lparr> esr_task_id = task_id (application_generate_entity self), esr_err = e \<rparr>"

definition ping_stream_response :: "pipeline \<Rightarrow> ping_stream_response" where
  "ping_stream_response self = \<lparr> psr_task_id = task_id (application_generate_entity self) \<rparr>"

section \<open>The moderation gate\<close>

text \<open>
  The calls made on a moderation handler, in order. \<^verbatim>\<open>stop_thread\<close> ends the handler's
  background work; what \<^verbatim>\<open>moderation_completion\<close> returns is decided by the moderation
  subsystem, so it is the parameter \<open>moderation_completion\<close>.
\<close>

datatype handler_call = Stop_thread | Moderation_completion string bool

definition stop_thread :: "output_moderation \<Rightarrow> output_moderation" where
  "stop_thread h = h\<lparr>thread_running := False\<rparr>"

definition handle_output_moderation_when_task_finished ::
  "(output_moderation \<Rightarrow> string \<Rightarrow> bool \<Rightarrow> string) \<Rightarrow> string
     \<Rightarrow> pipeline \<times> handler_call list
     \<Rightarrow> string option \<times> pipeline \<times> handler_call list" where
  "handle_output_moderation_when_task_finished moderation_completion completion st =
     (case st of (self, log) \<Rightarrow>
        (case output_moderation_handler self of
           Some h \<Rightarrow>
             (let h1 = stop_thread h;
                  log1 = log @ [Stop_thread];
                  completion1 = moderation_completion h1 completion False;
                  log2 = log1 @ [Moderation_completion completion False];
                  self1 = self\<lparr>output_moderation_handler := None\<rparr>
              in (Some completion1, self1, log2))
         | None \<Rightarrow> (None, self, log)))"

section \<open>Anomaly detection and enrichment\<close>

definition anomaly_note :: string where
  "anomaly_note = ''Suspicious content detected in the output.''"

text \<open>\<^verbatim>\<open>"suspicious" in output\<close> is the test for a contiguous substring.\<close>

definition detect_anomalies :: "string \<Rightarrow> string option" where
  "detect_anomalies output =
     (let anomaly_description =
            (if sublist ''suspicious'' output then Some anomaly_note else None)
      in if truthy anomaly_description then anomaly_description else None)"

text \<open>The f-string \<^verbatim>\<open>f"\nNote: {anomaly_description}"\<close> starts with a line feed.\<close>

definition note_prefix :: string where
  "note_prefix = CHR 0x0A # ''Note: ''"

definition enrich_response :: "string \<Rightarrow> string" where
  "enrich_response output =
     (let anomaly_description = detect_anomalies output
      in (case anomaly_description of
            Some a \<Rightarrow> if a \<noteq> [] then output @ note_prefix @ a else output
          | None \<Rightarrow> output))"

text \<open>The number of positions of \<open>s\<close> at which an occurrence of \<open>p\<close> starts.\<close>

fun occurrences :: "string \<Rightarrow> string \<Rightarrow> nat" where
  "occurrences p [] = (if p = [] then 1 else 0)"
| "occurrences p (c # cs) = (if prefix p (c # cs) then 1 else 0) + occurrences p cs"

section \<open>Sequences of pipeline operations\<close>

text \<open>
  The methods of the pipeline, as operations on the pipeline object, the persistence
  layer and the log of handler calls.
\<close>

datatype operation =
    Handle_error queue_error_event "message option"
  | Error_to_desc pyexc
  | Error_to_stream_response pyexc
  | Ping_stream_response
  | Handle_output_moderation_when_task_finished string
  | Detect_anomalies string
  | Enrich_response string

datatype op_output =
    Out_outcome outcome
  | Out_desc string
  | Out_error_stream error_stream_response
  | Out_ping ping_stream_response
  | Out_moderated "string option"
  | Out_anomaly "string option"
  | Out_enriched string

record world =
  pipe :: pipeline
  db :: database
  handler_calls :: "handler_call list"

fun step ::
  "(string \<Rightarrow> pyexc) \<Rightarrow> (output_moderation \<Rightarrow> string \<Rightarrow> bool \<Rightarrow> string)
     \<Rightarrow> operation \<Rightarrow> world \<Rightarrow> op_output \<times> world" where
  "step A M (Handle_error event msg) w =
     (case handle_error A event msg (db w) of (r, d) \<Rightarrow> (Out_outcome r, w\<lparr>db := d\<rparr>))"
| "step A M (Error_to_desc e) w = (Out_desc (error_to_desc e), w)"
| "step A M (Error_to_stream_response e) w =
     (Out_error_stream (error_to_stream_response (pipe w) e), w)"
| "step A M Ping_stream_response w = (Out_ping (ping_stream_response (pipe w)), w)"
| "step A M (Handle_output_moderation_when_task_finished completion) w =
     (case handle_output_moderation_when_task_finished M completion (pipe w, handler_calls w) of
        (r, p, log) \<Rightarrow> (Out_moderated r, w\<lparr>pipe := p, handler_calls := log\<rparr>))"
| "step A M (Detect_anomalies s) w = (Out_anomaly (detect_anomalies s), w)"
| "step A M (Enrich_response s) w = (Out_enriched (enrich_response s), w)"

fun run ::
  "(string \<Rightarrow> pyexc) \<Rightarrow> (output_moderation \<Rightarrow> string \<Rightarrow> bool \<Rightarrow> string)
     \<Rightarrow> operation list \<Rightarrow> world \<Rightarrow> op_output list \<times> world" where
  "run A M [] w = ([], w)"
| "run A M (op # ops) w =
     (case step A M op w of (r, w1) \<Rightarrow>
        (case run A M ops w1 of (rs, w2) \<Rightarrow> (r # rs, w2)))"

text \<open>The task id a stream response carries; other outputs carry none.\<close>

fun response_task_id :: "op_output \<Rightarrow> string option" where
  "response_task_id (Out_error_stream r) = Some (esr_task_id r)"
| "response_task_id (Out_ping r) = Some (psr_task_id r)"
| "response_task_id _ = None"

section \<open>Preconditions and concrete inputs\<close>

text \<open>
  A message reference resolves when none is given or when the query finds its row.
\<close>

definition message_found :: "message option \<Rightarrow> database \<Rightarrow> bool" where
  "message_found msg d =
     (case msg of None \<Rightarrow> True | Some m \<Rightarrow> lookup_message d (message_id m) \<noteq> None)"

text \<open>
  Concrete values for the instances below. \<open>sample_InvokeAuthorizationError\<close> is one
  possible constructor of the authorization failure: an invocation failure that keeps its
  argument as description and as string form. \<open>sample_moderation_completion\<close> is one
  possible moderation: it replaces a completion containing \<open>badword\<close> by a preset text.
\<close>

definition sample_InvokeAuthorizationError :: "string \<Rightarrow> pyexc" where
  "sample_InvokeAuthorizationError s =
     \<lparr> is_InvokeAuthorizationError = True, is_InvokeError = True, is_ValueError = False,
       is_QuotaExceededError = False, description = Some (Some s), str_of = s \<rparr>"

definition sample_moderation_completion :: "output_moderation \<Rightarrow> string \<Rightarrow> bool \<Rightarrow> string" where
  "sample_moderation_completion h completion public_event =
     (if sublist ''badword'' completion then ''[removed]'' else completion)"

definition failure ::
  "bool \<Rightarrow> bool \<Rightarrow> bool \<Rightarrow> bool \<Rightarrow> string option option \<Rightarrow> string \<Rightarrow> queue_error_event" where
  "failure auth invoke val quota desc s =
     \<lparr> error = \<lparr> is_InvokeAuthorizationError = auth, is_InvokeError = invoke,
                 is_ValueError = val, is_QuotaExceededError = quota,
                 description = desc, str_of = s \<rparr> \<rparr>"

definition stored_message :: message where
  "stored_message =
     \<lparr> message_id = ''m1'', message_status = ''normal'', message_error = None \<rparr>"

definition empty_db :: database where
  "empty_db = \<lparr> committed = Map.empty, pending = Map.empty, calls = [] \<rparr>"

definition one_row_db :: database where
  "one_row_db = \<lparr> committed = [''m1'' \<mapsto> stored_message], pending = Map.empty, calls = [] \<rparr>"

definition sample_entity :: "sensitive_word_avoidance_entity option \<Rightarrow> app_generate_entity" where
  "sample_entity swa =
     \<lparr> task_id = ''task-1'',
       app_config = \<lparr> tenant_id = ''tenant'', app_id = ''app'',
                      sensitive_word_avoidance = swa \<rparr> \<rparr>"

definition keywords_rule :: sensitive_word_avoidance_entity where
  "keywords_rule = \<lparr> swa_type = ''keywords'', swa_config = [(''keywords'', ''badword'')] \<rparr>"

definition sample_world :: world where
  "sample_world =
     \<lparr> pipe = init (sample_entity (Some keywords_rule)) ''queue'' ''user'' True 0,
       db = one_row_db, handler_calls = [] \<rparr>"

section \<open>Properties of the description\<close>

lemma quota_message_nonempty: "quota_message \<noteq> []"
  by (simp add: quota_message_def)

lemma support_message_nonempty: "support_message \<noteq> []"
  by (simp add: support_message_def)

lemma error_to_desc_nonempty_aux: "error_to_desc e \<noteq> []"
  by (simp add: error_to_desc_def quota_message_nonempty support_message_nonempty
      split: option.splits)

section \<open>What the classifier returns and persists\<close>

lemma handle_error_outcome_aux:
  "fst (handle_error A event msg d) =
     (if message_found msg d
      then Returned (if is_InvokeAuthorizationError (error event)
                     then A ''Incorrect API key provided''
                     else if is_InvokeError (error event) \<or> is_ValueError (error event)
                          then error event
                          else Exception (case description (error event) of
                                            Some (Some s) \<Rightarrow> s
                                          | _ \<Rightarrow> str_of (error event)))
      else Raised AttributeError)"
  by (auto simp: handle_error_def message_found_def query_first_def Let_def
      split: option.splits)

lemma handle_error_persist_aux:
  assumes "lookup_message d (message_id m) = Some row"
    and "fst (handle_error A event (Some m) d) = Returned err"
  shows "snd (handle_error A event (Some m) d) =
     d\<lparr>committed := (committed d ++ pending d)(message_id m \<mapsto>
          row\<lparr>message_status := ''error'', message_error := Some (error_to_desc err)\<rparr>),
       pending := Map.empty,
       calls := calls d @ [Query (message_id m), Mutation (message_id m),
                           Mutation (message_id m), Commit]\<rparr>"
  using assms
  by (auto simp add: handle_error_def Let_def query_first_def mutate_def commit_def)

text \<open>
  What is persisted for a quota-exhaustion failure depends on whether the classifier
  keeps the object: \<^verbatim>\<open>_error_to_desc\<close> is applied to the classified failure, not
  to the original one. \<^verbatim>\<open>QuotaExceededError\<close> is declared outside this file, so
  whether its instances are invocation failures or value-validation failures is not
  fixed here; the two lemmas below cover both cases.

  A quota-exhaustion failure that is passed through unchanged (an invocation failure or
  a value-validation failure, and no authorization failure), handled with a message
  reference whose row exists, is returned as it is, and the committed row has status
  \<open>error\<close> and the fixed quota message as its error description.
\<close>

lemma quota_description_when_passed_through:
  assumes "is_QuotaExceededError (error event)"
    and "\<not> is_InvokeAuthorizationError (error event)"
    and "is_InvokeError (error event) \<or> is_ValueError (error event)"
    and "lookup_message d (message_id m) = Some row"
  shows "fst (handle_error A event (Some m) d) = Returned (error event) \<and>
         committed (snd (handle_error A event (Some m) d)) (message_id m) =
           Some (row\<lparr>message_status := ''error'', message_error := Some quota_message\<rparr>)"
proof -
  have found: "message_found (Some m) d" using assms(4) by (simp add: message_found_def)
  have ret: "fst (handle_error A event (Some m) d) = Returned (error event)"
    using assms(2,3) found by (simp add: handle_error_outcome_aux)
  have "error_to_desc (error event) = quota_message"
    using assms(1) by (simp add: error_to_desc_def)
  then show ?thesis using ret handle_error_persist_aux [OF assms(4) ret] by simp
qed

lemma quota_description_when_passed_through_instance:
  "is_QuotaExceededError
     (error (failure False False True True (Some (Some ''Quota Exceeded'')) ''Quota Exceeded'')) \<and>
   lookup_message one_row_db (message_id stored_message) = Some stored_message \<and>
   committed (snd (handle_error sample_InvokeAuthorizationError
       (failure False False True True (Some (Some ''Quota Exceeded'')) ''Quota Exceeded'')
       (Some stored_message) one_row_db)) ''m1'' =
     Some \<lparr> message_id = ''m1'', message_status = ''error'',
            message_error = Some quota_message \<rparr>"
  using quota_description_when_passed_through
    [of "failure False False True True (Some (Some ''Quota Exceeded'')) ''Quota Exceeded''"
        one_row_db stored_message stored_message sample_InvokeAuthorizationError]
  by (simp add: failure_def one_row_db_def stored_message_def lookup_message_def)

text \<open>
  A quota-exhaustion failure that is none of the three other kinds is wrapped into a
  generic \<^verbatim>\<open>Exception\<close>, which is no quota-exhaustion failure; the committed
  description is then the text the wrapper carries (the description of the original when
  present and not \<^verbatim>\<open>None\<close>, otherwise its string form), or the support message when
  that text is empty.
\<close>

lemma quota_description_when_wrapped:
  assumes "is_QuotaExceededError (error event)"
    and "\<not> is_InvokeAuthorizationError (error event)"
    and "\<not> is_InvokeError (error event)" and "\<not> is_ValueError (error event)"
    and "lookup_message d (message_id m) = Some row"
    and "t = (case description (error event) of
                Some (Some s) \<Rightarrow> s
              | _ \<Rightarrow> str_of (error event))"
  shows "fst (handle_error A event (Some m) d) = Returned (Exception t) \<and>
         committed (snd (handle_error A event (Some m) d)) (message_id m) =
           Some (row\<lparr>message_status := ''error'',
                      message_error := Some (if t = [] then support_message else t)\<rparr>)"
proof -
  have found: "message_found (Some m) d" using assms(5) by (simp add: message_found_def)
  have ret: "fst (handle_error A event (Some m) d) = Returned (Exception t)"
    using assms(2,3,4,6) found by (simp add: handle_error_outcome_aux)
  have "error_to_desc (Exception t) = (if t = [] then support_message else t)"
    by (simp add: error_to_desc_def Exception_def getattr_description_or_str_def)
  then show ?thesis using ret handle_error_persist_aux [OF assms(5) ret] by simp
qed




text \<open>
  Claim C5. Without a message reference the persistence layer is left as it was: no
  query, no mutation, no commit. With a reference whose row exists, the classifier
  returns a failure, and afterwards the committed row has status \<open>error\<close> and the
  description of that failure, which is not empty, as its error; nothing is left
  uncommitted, and the calls made are one query, the two assignments and the commit.
\<close>

theorem persistence_on_error:
  "snd (handle_error A event None d) = d \<and>
   (lookup_message d (message_id m) = Some row \<longrightarrow>
      (\<exists>err. fst (handle_error A event (Some m) d) = Returned err \<and>
             error_to_desc err \<noteq> [] \<and>
             committed (snd (handle_error A event (Some m) d)) (message_id m) =
               Some (row\<lparr>message_status := ''error'',
                          message_error := Some (error_to_desc err)\<rparr>) \<and>
             pending (snd (handle_error A event (Some m) d)) = Map.empty \<and>
             calls (snd (handle_error A event (Some m) d)) =
               calls d @ [Query (message_id m), Mutation (message_id m),
                          Mutation (message_id m), Commit]))"
proof (intro conjI impI)
  show "snd (handle_error A event None d) = d"
    by (simp add: handle_error_def Let_def)
next
  assume row: "lookup_message d (message_id m) = Some row"
  then have "message_found (Some m) d" by (simp add: message_found_def)
  then obtain err where ret: "fst (handle_error A event (Some m) d) = Returned err"
    by (simp add: handle_error_outcome_aux)
  show "\<exists>err. fst (handle_error A event (Some m) d) = Returned err \<and>
             error_to_desc err \<noteq> [] \<and>
             committed (snd (handle_error A event (Some m) d)) (message_id m) =
               Some (row\<lparr>message_status := ''error'',
                          message_error := Some (error_to_desc err)\<rparr>) \<and>
             pending (snd (handle_error A event (Some m) d)) = Map.empty \<and>
             calls (snd (handle_error A event (Some m) d)) =
               calls d @ [Query (message_id m), Mutation (message_id m),
                          Mutation (message_id m), Commit]"
    using ret handle_error_persist_aux [OF row ret] error_to_desc_nonempty_aux [of err]
    by (intro exI [of _ err]) simp
qed

theorem persistence_on_error_witness:
  "lookup_message one_row_db (message_id stored_message) = Some stored_message \<and>
   snd (handle_error sample_InvokeAuthorizationError
          (failure False False False False None []) None one_row_db) = one_row_db \<and>
   (\<exists>err. fst (handle_error sample_InvokeAuthorizationError
          (failure False False False False None []) (Some stored_message) one_row_db) = Returned err \<and>
      error_to_desc err \<noteq> [] \<and>
      committed (snd (handle_error sample_InvokeAuthorizationError
          (failure False False False False None []) (Some stored_message) one_row_db)) ''m1'' =
        Some \<lparr> message_id = ''m1'', message_status = ''error'',
            message_error = Some (error_to_desc err) \<rparr> \<and>
      calls (snd (handle_error sample_InvokeAuthorizationError
          (failure False False False False None []) (Some stored_message) one_row_db)) =
        [Query ''m1'', Mutation ''m1'', Mutation ''m1'', Commit])"
proof -
  have row: "lookup_message one_row_db (message_id stored_message) = Some stored_message"
    by (simp add: one_row_db_def stored_message_def lookup_message_def)
  have ids: "message_id stored_message = ''m1''" "calls one_row_db = []"
    "stored_message\<lparr>message_status := ''error'', message_error := Some x\<rparr> =
       \<lparr> message_id = ''m1'', message_status = ''error'', message_error = Some x \<rparr>" for x
    by (simp_all add: one_row_db_def stored_message_def)
  show ?thesis
    using row persistence_on_error
      [of sample_InvokeAuthorizationError "failure False False False False None []" one_row_db
          stored_message stored_message]
    by (auto simp add: ids)
qed

text \<open>
  Claim C6. For an authorization failure the classifier returns the authorization failure
  built from the fixed string \<open>Incorrect API key provided\<close>, whatever the original
  failure carried: it does so whenever the message reference resolves, and it never
  returns anything else.
\<close>

theorem authorization_failure_rewritten:
  assumes "is_InvokeAuthorizationError (error event)"
  shows "(message_found msg d \<longrightarrow>
            fst (handle_error A event msg d) = Returned (A ''Incorrect API key provided'')) \<and>
         (\<forall>err. fst (handle_error A event msg d) = Returned err \<longrightarrow>
            err = A ''Incorrect API key provided'')"
proof -
  have "fst (handle_error A event msg d) =
     (if message_found msg d then Returned (A ''Incorrect API key provided'')
      else Raised AttributeError)"
    using assms by (simp only: handle_error_outcome_aux if_True)
  then show ?thesis by (cases "message_found msg d") simp_all
qed

theorem authorization_failure_rewritten_witness:
  "is_InvokeAuthorizationError (error (failure True True False False (Some (Some ''401 from provider'')) ''401 from provider'')) \<and>
   message_found None empty_db \<and>
   fst (handle_error sample_InvokeAuthorizationError
          (failure True True False False (Some (Some ''401 from provider'')) ''401 from provider'')
          None empty_db) =
     Returned (sample_InvokeAuthorizationError ''Incorrect API key provided'') \<and>
   str_of (sample_InvokeAuthorizationError ''Incorrect API key provided'') = ''Incorrect API key provided''"
proof -
  have h: "is_InvokeAuthorizationError (error (failure True True False False (Some (Some ''401 from provider'')) ''401 from provider''))"
    by (simp add: failure_def)
  have f: "message_found None empty_db" by (simp add: message_found_def)
  have s: "str_of (sample_InvokeAuthorizationError ''Incorrect API key provided'') = ''Incorrect API key provided''"
    by (simp add: sample_InvokeAuthorizationError_def)
  from authorization_failure_rewritten [OF h, of None empty_db sample_InvokeAuthorizationError] f
  have "fst (handle_error sample_InvokeAuthorizationError
          (failure True True False False (Some (Some ''401 from provider'')) ''401 from provider'')
          None empty_db) =
     Returned (sample_InvokeAuthorizationError ''Incorrect API key provided'')"
    by blast
  with h f s show ?thesis by blast
qed

text \<open>
  Claim C7. For a failure that is no authorization failure: an invocation failure or a
  value-validation failure is returned as it is; any other failure is returned as a
  generic \<^verbatim>\<open>Exception\<close> built from its description when the attribute is present and
  not \<^verbatim>\<open>None\<close>, and from its string form otherwise.
\<close>

theorem other_failures_passed_or_wrapped:
  assumes "\<not> is_InvokeAuthorizationError (error event)"
    and "message_found msg d"
  shows "(is_InvokeError (error event) \<or> is_ValueError (error event) \<longrightarrow>
            fst (handle_error A event msg d) = Returned (error event)) \<and>
         (\<not> is_InvokeError (error event) \<and> \<not> is_ValueError (error event) \<longrightarrow>
            (\<forall>s. description (error event) = Some (Some s) \<longrightarrow>
               fst (handle_error A event msg d) = Returned (Exception s)) \<and>
            (description (error event) = None \<or> description (error event) = Some None \<longrightarrow>
               fst (handle_error A event msg d) = Returned (Exception (str_of (error event)))))"
  using assms by (auto simp add: handle_error_outcome_aux)

theorem other_failures_passed_or_wrapped_witness:
  "\<not> is_InvokeAuthorizationError (error (failure False True False False None ''rate limited'')) \<and>
   message_found None empty_db \<and>
   fst (handle_error sample_InvokeAuthorizationError
          (failure False True False False None ''rate limited'') None empty_db) =
     Returned (error (failure False True False False None ''rate limited'')) \<and>
   fst (handle_error sample_InvokeAuthorizationError
          (failure False False True False None ''bad value'') None empty_db) =
     Returned (error (failure False False True False None ''bad value'')) \<and>
   fst (handle_error sample_InvokeAuthorizationError
          (failure False False False False (Some (Some ''Not found'')) ''404'') None empty_db) =
     Returned (Exception ''Not found'') \<and>
   fst (handle_error sample_InvokeAuthorizationError
          (failure False False False False (Some None) ''boom'') None empty_db) =
     Returned (Exception ''boom'') \<and>
   fst (handle_error sample_InvokeAuthorizationError
          (failure False False False False None ''key'') None empty_db) =
     Returned (Exception ''key'')"
  using other_failures_passed_or_wrapped
      [of "failure False True False False None ''rate limited''" None empty_db
          sample_InvokeAuthorizationError]
    other_failures_passed_or_wrapped
      [of "failure False False True False None ''bad value''" None empty_db
          sample_InvokeAuthorizationError]
    other_failures_passed_or_wrapped
      [of "failure False False False False (Some (Some ''Not found'')) ''404''" None empty_db
          sample_InvokeAuthorizationError]
    other_failures_passed_or_wrapped
      [of "failure False False False False (Some None) ''boom''" None empty_db
          sample_InvokeAuthorizationError]
    other_failures_passed_or_wrapped
      [of "failure False False False False None ''key''" None empty_db
          sample_InvokeAuthorizationError]
  by (simp add: failure_def message_found_def)

section \<open>The description of a failure\<close>

text \<open>
  Claim C8. A failure that is no quota-exhaustion failure, has no attribute
  \<^verbatim>\<open>description\<close> and an empty string form is described by the fixed support message.
\<close>

theorem support_message_fallback:
  assumes "\<not> is_QuotaExceededError e" and "description e = None" and "str_of e = []"
  shows "error_to_desc e = support_message"
  using assms by (simp add: error_to_desc_def getattr_description_or_str_def)

theorem support_message_fallback_witness:
  "\<not> is_QuotaExceededError (Exception []) \<and> description (Exception []) = None \<and>
   str_of (Exception []) = [] \<and>
   error_to_desc (Exception []) = ''Internal Server Error, please contact support.''"
  using support_message_fallback [of "Exception []"]
  by (simp add: Exception_def support_message_def)

text \<open>
  Claim C10. The description is never the empty string; where the value read from the
  failure is \<^verbatim>\<open>None\<close> or empty (and the failure is no quota-exhaustion failure), the
  description is the fixed support message.
\<close>

theorem error_to_desc_never_empty:
  "error_to_desc e \<noteq> [] \<and>
   (\<not> is_QuotaExceededError e \<and> \<not> truthy (getattr_description_or_str e) \<longrightarrow>
      error_to_desc e = support_message)"
  by (cases "getattr_description_or_str e")
     (simp_all add: error_to_desc_def quota_message_nonempty support_message_nonempty)

theorem error_to_desc_never_empty_witness:
  "\<not> is_QuotaExceededError (error (failure False False True False (Some None) ''bad value'')) \<and>
   \<not> truthy (getattr_description_or_str (error (failure False False True False (Some None) ''bad value''))) \<and>
   error_to_desc (error (failure False False True False (Some None) ''bad value'')) = support_message \<and>
   error_to_desc (error (failure False False True False (Some (Some [])) ''bad value'')) = support_message \<and>
   support_message \<noteq> []"
  using error_to_desc_never_empty [of "error (failure False False True False (Some None) ''bad value'')"]
     error_to_desc_never_empty [of "error (failure False False True False (Some (Some [])) ''bad value'')"]
  by (simp add: failure_def getattr_description_or_str_def support_message_def)

section \<open>Enrichment\<close>

lemma note_no_straddle_aux:
  "prefix anomaly_note (x @ note_prefix @ anomaly_note) \<longleftrightarrow> prefix anomaly_note x"
proof
  assume h: "prefix anomaly_note (x @ note_prefix @ anomaly_note)"
  have lf: "CHR 0x0A \<notin> set anomaly_note" by (simp add: anomaly_note_def)
  from h consider "prefix anomaly_note x"
    | us where "anomaly_note = x @ us" "prefix us (note_prefix @ anomaly_note)"
    by (auto simp: prefix_append)
  then show "prefix anomaly_note x"
  proof cases
    case 1 then show ?thesis .
  next
    case 2
    show ?thesis
    proof (cases us)
      case Nil with 2 show ?thesis by simp
    next
      case (Cons u vs)
      with 2 have "u = CHR 0x0A" by (simp add: note_prefix_def)
      moreover have "u \<in> set (x @ us)" using Cons by simp
      ultimately have "CHR 0x0A \<in> set anomaly_note" using 2(1) by metis
      with lf show ?thesis by contradiction
    qed
  qed
next
  assume "prefix anomaly_note x"
  then show "prefix anomaly_note (x @ note_prefix @ anomaly_note)"
    by (rule prefix_prefix)
qed

lemma occurrences_tail_aux: "occurrences anomaly_note (note_prefix @ anomaly_note) = 1"
  by (simp add: anomaly_note_def note_prefix_def)

lemma occurrences_append_note_aux:
  "occurrences anomaly_note (x @ note_prefix @ anomaly_note) = Suc (occurrences anomaly_note x)"
proof (induction x)
  case Nil
  have "anomaly_note \<noteq> []" by (simp add: anomaly_note_def)
  then show ?case using occurrences_tail_aux by simp
next
  case (Cons c cs)
  have "prefix anomaly_note ((c # cs) @ note_prefix @ anomaly_note)
          \<longleftrightarrow> prefix anomaly_note (c # cs)"
    by (rule note_no_straddle_aux)
  then show ?case using Cons by simp
qed

lemma enrich_suspicious_aux:
  "sublist ''suspicious'' s \<Longrightarrow> enrich_response s = s @ note_prefix @ anomaly_note"
  by (simp add: enrich_response_def detect_anomalies_def Let_def anomaly_note_def)

lemma occurrences_pos_aux: "sublist p s \<longleftrightarrow> 0 < occurrences p s"
proof (induction s)
  case Nil show ?case by simp
next
  case (Cons c cs)
  show ?case
  proof (cases "prefix p (c # cs)")
    case True then show ?thesis by (simp add: sublist_Cons_right)
  next
    case False then show ?thesis using Cons.IH by (simp add: sublist_Cons_right)
  qed
qed

text \<open>
  Claim C3, as amended. For an input that contains \<open>suspicious\<close>, the enriched output is
  the input followed by a line feed, \<open>Note: \<close> and the fixed anomaly note. It contains
  the note, exactly once more often than the input does; so it contains the note exactly
  once when the input does not contain it already.
\<close>

theorem enrich_appends_one_note:
  assumes "sublist ''suspicious'' s"
  shows "enrich_response s = s @ note_prefix @ anomaly_note \<and>
         sublist anomaly_note (enrich_response s) \<and>
         occurrences anomaly_note (enrich_response s) = Suc (occurrences anomaly_note s) \<and>
         (\<not> sublist anomaly_note s \<longrightarrow> occurrences anomaly_note (enrich_response s) = 1)"
proof -
  have e: "enrich_response s = s @ note_prefix @ anomaly_note"
    using assms by (rule enrich_suspicious_aux)
  have n: "occurrences anomaly_note (enrich_response s) = Suc (occurrences anomaly_note s)"
    by (simp only: e occurrences_append_note_aux)
  have "sublist anomaly_note (enrich_response s)"
    by (simp add: occurrences_pos_aux n)
  moreover have "\<not> sublist anomaly_note s \<longrightarrow> occurrences anomaly_note (enrich_response s) = 1"
    by (simp add: n occurrences_pos_aux)
  ultimately show ?thesis using e n by blast
qed

theorem enrich_appends_one_note_witness:
  "sublist ''suspicious'' ''a suspicious link'' \<and>
   \<not> sublist anomaly_note ''a suspicious link'' \<and>
   enrich_response ''a suspicious link'' =
     ''a suspicious link'' @ [CHR 0x0A] @ ''Note: Suspicious content detected in the output.'' \<and>
   occurrences anomaly_note (enrich_response ''a suspicious link'') = 1"
proof -
  have h: "sublist ''suspicious'' ''a suspicious link''" by code_simp
  have "occurrences anomaly_note ''a suspicious link'' = 0"
    by (simp add: anomaly_note_def)
  then have n: "\<not> sublist anomaly_note ''a suspicious link''"
    by (simp only: occurrences_pos_aux less_irrefl not_False_eq_True)
  have p: "note_prefix @ anomaly_note =
             [CHR 0x0A] @ ''Note: Suspicious content detected in the output.''"
    by (simp add: note_prefix_def anomaly_note_def)
  from enrich_appends_one_note [OF h]
  have a: "enrich_response ''a suspicious link'' =
             ''a suspicious link'' @ note_prefix @ anomaly_note"
    and b: "\<not> sublist anomaly_note ''a suspicious link'' \<longrightarrow>
             occurrences anomaly_note (enrich_response ''a suspicious link'') = 1"
    by blast+
  from b n have c: "occurrences anomaly_note (enrich_response ''a suspicious link'') = 1"
    by blast
  from a p have d: "enrich_response ''a suspicious link'' =
     ''a suspicious link'' @ [CHR 0x0A] @ ''Note: Suspicious content detected in the output.''"
    by (simp only:)
  from h n d c show ?thesis by blast
qed

text \<open>
  Claim C3 as stated fails for an input that contains \<open>suspicious\<close> and the note itself:
  the note is appended all the same, and the output contains it twice.
\<close>

theorem enrich_note_twice:
  "sublist ''suspicious'' ''suspicious Suspicious content detected in the output.'' \<and>
   occurrences ''Suspicious content detected in the output.''
     (enrich_response ''suspicious Suspicious content detected in the output.'') = 2"
proof -
  have h: "sublist ''suspicious'' ''suspicious Suspicious content detected in the output.''"
    by code_simp
  have e: "enrich_response ''suspicious Suspicious content detected in the output.'' =
      ''suspicious Suspicious content detected in the output.'' @ note_prefix @ anomaly_note"
    using h by (rule enrich_suspicious_aux)
  have "occurrences ''Suspicious content detected in the output.''
     (''suspicious Suspicious content detected in the output.'' @ note_prefix @ anomaly_note) = 2"
    by (simp add: anomaly_note_def note_prefix_def)
  with h e show ?thesis by (simp only:)
qed

section \<open>The moderation gate is one-shot\<close>

lemma init_handler_aux:
  "output_moderation_handler (init entity qm usr strm now) =
     (case sensitive_word_avoidance (app_config entity) of
        None \<Rightarrow> None
      | Some swa \<Rightarrow>
          Some \<lparr> om_tenant_id = tenant_id (app_config entity),
                 om_app_id = app_id (app_config entity),
                 om_rule = \<lparr> rule_type = swa_type swa, rule_config = swa_config swa \<rparr>,
                 om_queue_manager = qm,
                 thread_running = True \<rparr>)"
  by (simp add: init_def init_output_moderation_def Let_def split: option.splits)

lemma finish_absent_aux:
  "output_moderation_handler p = None \<Longrightarrow>
   handle_output_moderation_when_task_finished M c (p, log) = (None, p, log)"
  by (simp add: handle_output_moderation_when_task_finished_def)

lemma finish_present_aux:
  "output_moderation_handler p = Some h \<Longrightarrow>
   handle_output_moderation_when_task_finished M c (p, log) =
     (Some (M (stop_thread h) c False), p\<lparr>output_moderation_handler := None\<rparr>,
      log @ [Stop_thread, Moderation_completion c False])"
  by (simp add: handle_output_moderation_when_task_finished_def Let_def)

text \<open>
  Claim C4. A pipeline built from a configuration without sensitive-word avoidance has no
  handler: finishing a task returns \<^verbatim>\<open>None\<close> and changes neither the pipeline nor
  the log of handler calls, so no text is transformed. A pipeline built from a
  configuration with sensitive-word avoidance has a running handler: the first call stops
  it, returns what its moderation makes of the completion, and discards it; a second call
  returns \<^verbatim>\<open>None\<close> and calls nothing.
\<close>

theorem moderation_gate_one_shot:
  "(sensitive_word_avoidance (app_config entity) = None \<longrightarrow>
      handle_output_moderation_when_task_finished M c (init entity qm usr strm now, log) =
        (None, init entity qm usr strm now, log)) \<and>
   (sensitive_word_avoidance (app_config entity) \<noteq> None \<longrightarrow>
      (\<exists>h. output_moderation_handler (init entity qm usr strm now) = Some h \<and>
           thread_running h \<and> \<not> thread_running (stop_thread h) \<and>
           handle_output_moderation_when_task_finished M c (init entity qm usr strm now, log) =
             (Some (M (stop_thread h) c False),
              (init entity qm usr strm now)\<lparr>output_moderation_handler := None\<rparr>,
              log @ [Stop_thread, Moderation_completion c False]) \<and>
           handle_output_moderation_when_task_finished M c2
               ((init entity qm usr strm now)\<lparr>output_moderation_handler := None\<rparr>,
                log @ [Stop_thread, Moderation_completion c False]) =
             (None, (init entity qm usr strm now)\<lparr>output_moderation_handler := None\<rparr>,
              log @ [Stop_thread, Moderation_completion c False])))"
proof (intro conjI impI)
  assume "sensitive_word_avoidance (app_config entity) = None"
  then have "output_moderation_handler (init entity qm usr strm now) = None"
    by (simp add: init_handler_aux)
  then show "handle_output_moderation_when_task_finished M c (init entity qm usr strm now, log) =
        (None, init entity qm usr strm now, log)"
    by (rule finish_absent_aux)
next
  assume "sensitive_word_avoidance (app_config entity) \<noteq> None"
  then obtain swa where swa: "sensitive_word_avoidance (app_config entity) = Some swa"
    by blast
  define h where "h = \<lparr> om_tenant_id = tenant_id (app_config entity),
                 om_app_id = app_id (app_config entity),
                 om_rule = \<lparr> rule_type = swa_type swa, rule_config = swa_config swa \<rparr>,
                 om_queue_manager = qm,
                 thread_running = True \<rparr>"
  have hd: "output_moderation_handler (init entity qm usr strm now) = Some h"
    using swa by (simp add: init_handler_aux h_def)
  have r: "thread_running h" "\<not> thread_running (stop_thread h)"
    by (simp_all add: h_def stop_thread_def)
  have first: "handle_output_moderation_when_task_finished M c (init entity qm usr strm now, log) =
             (Some (M (stop_thread h) c False),
              (init entity qm usr strm now)\<lparr>output_moderation_handler := None\<rparr>,
              log @ [Stop_thread, Moderation_completion c False])"
    using hd by (rule finish_present_aux)
  have second: "handle_output_moderation_when_task_finished M c2
               ((init entity qm usr strm now)\<lparr>output_moderation_handler := None\<rparr>,
                log @ [Stop_thread, Moderation_completion c False]) =
             (None, (init entity qm usr strm now)\<lparr>output_moderation_handler := None\<rparr>,
              log @ [Stop_thread, Moderation_completion c False])"
    by (rule finish_absent_aux) simp
  from hd r first second
  show "\<exists>h. output_moderation_handler (init entity qm usr strm now) = Some h \<and>
           thread_running h \<and> \<not> thread_running (stop_thread h) \<and>
           handle_output_moderation_when_task_finished M c (init entity qm usr strm now, log) =
             (Some (M (stop_thread h) c False),
              (init entity qm usr strm now)\<lparr>output_moderation_handler := None\<rparr>,
              log @ [Stop_thread, Moderation_completion c False]) \<and>
           handle_output_moderation_when_task_finished M c2
               ((init entity qm usr strm now)\<lparr>output_moderation_handler := None\<rparr>,
                log @ [Stop_thread, Moderation_completion c False]) =
             (None, (init entity qm usr strm now)\<lparr>output_moderation_handler := None\<rparr>,
              log @ [Stop_thread, Moderation_completion c False])"
    by blast
qed

theorem moderation_gate_one_shot_witness:
  "sensitive_word_avoidance (app_config (sample_entity None)) = None \<and>
   sensitive_word_avoidance (app_config (sample_entity (Some keywords_rule))) \<noteq> None \<and>
   handle_output_moderation_when_task_finished sample_moderation_completion ''a badword''
       (init (sample_entity None) ''queue'' ''user'' True 0, []) =
     (None, init (sample_entity None) ''queue'' ''user'' True 0, []) \<and>
   (\<exists>h. handle_output_moderation_when_task_finished sample_moderation_completion ''a badword''
       (init (sample_entity (Some keywords_rule)) ''queue'' ''user'' True 0, []) =
     (Some (sample_moderation_completion h ''a badword'' False),
      (init (sample_entity (Some keywords_rule)) ''queue'' ''user'' True 0)
        \<lparr>output_moderation_handler := None\<rparr>,
      [Stop_thread, Moderation_completion ''a badword'' False]))"
proof -
  have off: "sensitive_word_avoidance (app_config (sample_entity None)) = None"
    by (simp add: sample_entity_def)
  have on: "sensitive_word_avoidance (app_config (sample_entity (Some keywords_rule))) \<noteq> None"
    by (simp add: sample_entity_def)
  from off moderation_gate_one_shot
    [of "sample_entity None" sample_moderation_completion "''a badword''" "''queue''" "''user''"
        True 0 "[]" "[]"]
  have a: "handle_output_moderation_when_task_finished sample_moderation_completion ''a badword''
       (init (sample_entity None) ''queue'' ''user'' True 0, []) =
     (None, init (sample_entity None) ''queue'' ''user'' True 0, [])"
    by blast
  from on moderation_gate_one_shot
    [of "sample_entity (Some keywords_rule)" sample_moderation_completion "''a badword''"
        "''queue''" "''user''" True 0 "[]" "[]"]
  obtain h where "handle_output_moderation_when_task_finished sample_moderation_completion
       ''a badword'' (init (sample_entity (Some keywords_rule)) ''queue'' ''user'' True 0, []) =
     (Some (sample_moderation_completion (stop_thread h) ''a badword'' False),
      (init (sample_entity (Some keywords_rule)) ''queue'' ''user'' True 0)
        \<lparr>output_moderation_handler := None\<rparr>,
      [] @ [Stop_thread, Moderation_completion ''a badword'' False])"
    by blast
  then have b: "\<exists>h. handle_output_moderation_when_task_finished sample_moderation_completion
       ''a badword'' (init (sample_entity (Some keywords_rule)) ''queue'' ''user'' True 0, []) =
     (Some (sample_moderation_completion h ''a badword'' False),
      (init (sample_entity (Some keywords_rule)) ''queue'' ''user'' True 0)
        \<lparr>output_moderation_handler := None\<rparr>,
      [Stop_thread, Moderation_completion ''a badword'' False])"
    by (intro exI [of _ "stop_thread h"]) (simp only: append_Nil)
  from off on a b show ?thesis by blast
qed

section \<open>The task id never changes\<close>

lemma finish_keeps_entity_aux:
  "handle_output_moderation_when_task_finished M c (p, log) = (r, p1, log1) \<Longrightarrow>
   application_generate_entity p1 = application_generate_entity p"
  by (auto simp: handle_output_moderation_when_task_finished_def Let_def split: option.splits)

lemma step_keeps_entity_aux:
  "application_generate_entity (pipe (snd (step A M operation w))) =
     application_generate_entity (pipe w)"
proof (cases operation)
  case (Handle_output_moderation_when_task_finished c)
  obtain r p1 log1 where
    f: "handle_output_moderation_when_task_finished M c (pipe w, handler_calls w) = (r, p1, log1)"
    by (cases "handle_output_moderation_when_task_finished M c (pipe w, handler_calls w)")
  from finish_keeps_entity_aux [OF f] f Handle_output_moderation_when_task_finished
  show ?thesis by simp
qed (simp_all split: prod.splits)

lemma step_response_aux:
  "response_task_id (fst (step A M operation w)) = Some t \<Longrightarrow>
   t = task_id (application_generate_entity (pipe w))"
  by (cases operation)
     (auto simp: error_to_stream_response_def ping_stream_response_def split: prod.splits)

text \<open>
  Claim C9. Whatever operations of the pipeline are run, in whatever order, the task id
  of the generate entity afterwards is the one before, and every stream response
  produced on the way carries that task id; so do the responses of
  \<^verbatim>\<open>_error_to_stream_response\<close> and \<^verbatim>\<open>_ping_stream_response\<close>.
\<close>

theorem task_id_immutable:
  "task_id (application_generate_entity (pipe (snd (run A M ops w)))) =
     task_id (application_generate_entity (pipe w)) \<and>
   (\<forall>r \<in> set (fst (run A M ops w)). \<forall>t. response_task_id r = Some t \<longrightarrow>
      t = task_id (application_generate_entity (pipe w))) \<and>
   esr_task_id (error_to_stream_response (pipe w) e) =
     task_id (application_generate_entity (pipe w)) \<and>
   psr_task_id (ping_stream_response (pipe w)) =
     task_id (application_generate_entity (pipe w))"
proof (induction ops arbitrary: w)
  case Nil
  show ?case by (simp add: error_to_stream_response_def ping_stream_response_def)
next
  case (Cons operation ops)
  obtain r w1 where s: "step A M operation w = (r, w1)" by (cases "step A M operation w")
  obtain rs w2 where t: "run A M ops w1 = (rs, w2)" by (cases "run A M ops w1")
  have k: "application_generate_entity (pipe w1) = application_generate_entity (pipe w)"
    using step_keeps_entity_aux [of A M operation w] s by simp
  have h: "\<And>t. response_task_id r = Some t \<Longrightarrow>
              t = task_id (application_generate_entity (pipe w))"
    using step_response_aux [of A M operation w] s by simp
  from Cons.IH [of w1] t k
  have ih1: "task_id (application_generate_entity (pipe w2)) =
               task_id (application_generate_entity (pipe w))"
    and ih2: "\<forall>r \<in> set rs. \<forall>t. response_task_id r = Some t \<longrightarrow>
               t = task_id (application_generate_entity (pipe w))"
    by simp_all
  show ?case using s t ih1 ih2 h
    by (auto simp add: error_to_stream_response_def ping_stream_response_def)
qed

theorem task_id_immutable_witness:
  "task_id (application_generate_entity (pipe sample_world)) = ''task-1'' \<and>
   task_id (application_generate_entity (pipe (snd (run sample_InvokeAuthorizationError
      sample_moderation_completion
      [Ping_stream_response,
       Handle_error (failure True True False False None ''401'') (Some stored_message),
       Handle_output_moderation_when_task_finished ''a badword'',
       Error_to_stream_response (Exception ''boom'')] sample_world)))) = ''task-1'' \<and>
   map response_task_id (fst (run sample_InvokeAuthorizationError sample_moderation_completion
      [Ping_stream_response,
       Handle_error (failure True True False False None ''401'') (Some stored_message),
       Handle_output_moderation_when_task_finished ''a badword'',
       Error_to_stream_response (Exception ''boom'')] sample_world)) =
     [Some ''task-1'', None, None, Some ''task-1'']"
proof -
  have i: "task_id (application_generate_entity (pipe sample_world)) = ''task-1''"
    by (simp add: sample_world_def init_def sample_entity_def Let_def)
  have m: "map response_task_id (fst (run sample_InvokeAuthorizationError
      sample_moderation_completion
      [Ping_stream_response,
       Handle_error (failure True True False False None ''401'') (Some stored_message),
       Handle_output_moderation_when_task_finished ''a badword'',
       Error_to_stream_response (Exception ''boom'')] sample_world)) =
     [Some (task_id (application_generate_entity (pipe sample_world))), None, None,
      Some (task_id (application_generate_entity (pipe sample_world)))]"
    by (simp add: ping_stream_response_def error_to_stream_response_def
        handle_output_moderation_when_task_finished_def Let_def
        split: prod.splits option.splits)
  from task_id_immutable
    [of sample_InvokeAuthorizationError sample_moderation_completion
      "[Ping_stream_response,
       Handle_error (failure True True False False None ''401'') (Some stored_message),
       Handle_output_moderation_when_task_finished ''a badword'',
       Error_to_stream_response (Exception ''boom'')]" sample_world "Exception ''boom''"]
  have a: "task_id (application_generate_entity (pipe (snd (run sample_InvokeAuthorizationError
      sample_moderation_completion
      [Ping_stream_response,
       Handle_error (failure True True False False None ''401'') (Some stored_message),
       Handle_output_moderation_when_task_finished ''a badword'',
       Error_to_stream_response (Exception ''boom'')] sample_world)))) =
       task_id (application_generate_entity (pipe sample_world))"
    by blast
  from a m i show ?thesis by (simp only:) 
qed

end
